theory Spec2Isabelle
  imports Main "HOL-Library.Sublist"
begin

section \<open>Stock routes of the trading playground API\<close>

text \<open>
  A shallow embedding of \<^verbatim>\<open>src/app/routes/stock_routes.js\<close>: the five routes on
  \<^verbatim>\<open>/stocks\<close> (index, show, create, update, destroy). A route is a chain of
  middleware and promise callbacks; here it is a chain of fallible steps over the
  document store. Every step returns its result, the store after it and the steps it
  performed, so that the order in which a route runs its steps can be read off.
\<close>

subsection \<open>Data\<close>

text \<open>JSON values of a request body: strings, numbers, booleans, null, arrays, objects.\<close>

datatype jval =
    JString string
  | JNumber int
  | JBool bool
  | JNull
  | JArray "jval list"
  | JObject "string \<Rightarrow> jval option"

text \<open>
  \<^verbatim>\<open>req.body\<close> is an object of objects: resource name to field name to value,
  as in \<^verbatim>\<open>{ stock: { title: '', text: 'foo' } }\<close>. The value of a field is any
  JSON value, an object such as \<^verbatim>\<open>{ $set: { owner: ... } }\<close> included. A resource
  without an object (absent, or null) is \<open>None\<close>.
\<close>

type_synonym fields = "string \<Rightarrow> jval option"
type_synonym payload = "string \<Rightarrow> fields option"

record user =
  user_id :: string
  user_email :: string

text \<open>
  A stock document. The owner is a reference to a user: its id as stored, or the user
  document itself (null when there is none) after \<^verbatim>\<open>populate('owner')\<close>.
\<close>

record 'o stock =
  stock_id :: nat
  stock_title :: string
  stock_text :: string
  stock_owner :: 'o

record request =
  authorization :: "string option"
  req_user :: "user option"
  params_id :: nat
  body :: payload

datatype err = NotFound | Forbidden | Unauthorized | ValidationError | StoreError | TypeError

datatype store_op = OpFind | OpFindById | OpCreate | OpUpdateOne | OpDeleteOne

text \<open>
  The external collaborators: the bearer strategy of passport, the user collection that
  \<^verbatim>\<open>populate\<close> reads, and whether a store operation is rejected by the driver.
\<close>

record env =
  bearer :: "string \<Rightarrow> user option"
  lookup_user :: "string \<Rightarrow> user option"
  store_fails :: "store_op \<Rightarrow> bool"

record db =
  docs :: "string stock list"
  next_id :: nat

datatype step =
    RequireToken
  | RemoveBlanks
  | DiscardOwner
  | SetOwner
  | StoreCall store_op
  | Handle404
  | RequireOwnership
  | Respond nat

datatype resp_body =
    StockBody "string stock"
  | PopulatedStockBody "user option stock"
  | StocksBody "user option stock list"

text \<open>
  What the client gets: a status with a JSON body, a bare status, or the error that was
  handed to \<^verbatim>\<open>next\<close>, that is to the error handler of the application.
\<close>

datatype response = Json nat resp_body | SendStatus nat | Failed err

subsection \<open>Chaining\<close>

type_synonym 'a action = "db \<Rightarrow> (err + 'a) \<times> db \<times> step list"

text \<open>
  \<^verbatim>\<open>p.then(f)\<close>, and likewise a middleware followed by the next one: a failure skips
  everything that follows.
\<close>

definition then_do :: "'a action \<Rightarrow> ('a \<Rightarrow> 'b action) \<Rightarrow> 'b action" where
  "then_do m f = (\<lambda>s.
     case m s of
       (Inl e, s', t) \<Rightarrow> (Inl e, s', t)
     | (Inr a, s', t) \<Rightarrow> (case f a s' of (r, s'', t') \<Rightarrow> (r, s'', t @ t')))"

text \<open>\<^verbatim>\<open>.catch(next)\<close>: the error, whatever it is, goes to the error handler.\<close>

definition catch_next :: "response action \<Rightarrow> db \<Rightarrow> response \<times> db \<times> step list" where
  "catch_next m = (\<lambda>s.
     case m s of
       (Inl e, s', t) \<Rightarrow> (Failed e, s', t)
     | (Inr r, s', t) \<Rightarrow> (r, s', t))"

text \<open>
  A promise that is created and not returned to the chain: the operation runs, its
  outcome is dropped, the chain goes on.
\<close>

definition not_returned :: "'a action \<Rightarrow> unit action" where
  "not_returned m = (\<lambda>s. case m s of (r, s', t) \<Rightarrow> (Inr (), s', t))"

definition res_json :: "nat \<Rightarrow> resp_body \<Rightarrow> response action" where
  "res_json status b = (\<lambda>s. (Inr (Json status b), s, [Respond status]))"

definition sendStatus :: "nat \<Rightarrow> response action" where
  "sendStatus status = (\<lambda>s. (Inr (SendStatus status), s, [Respond status]))"

subsection \<open>The store\<close>

text \<open>
  Modelled from the spec: the Stock model (\<^verbatim>\<open>app/models/stock.js\<close>) and the
  document store behind it are not part of the sources. The spec gives a stock the
  fields title, text and owner, point lookups, inserts, partial updates and deletes, a
  ValidationError when a required field is missing and a StoreError when the
  persistence layer fails.
\<close>

definition str_field :: "fields \<Rightarrow> string \<Rightarrow> string option" where
  "str_field p k = (case p k of Some (JString v) \<Rightarrow> Some v | _ \<Rightarrow> None)"

definition find_all :: "env \<Rightarrow> string stock list action" where
  "find_all e = (\<lambda>s.
     if store_fails e OpFind then (Inl StoreError, s, [StoreCall OpFind])
     else (Inr (docs s), s, [StoreCall OpFind]))"

definition findById :: "env \<Rightarrow> nat \<Rightarrow> string stock option action" where
  "findById e i = (\<lambda>s.
     if store_fails e OpFindById then (Inl StoreError, s, [StoreCall OpFindById])
     else (Inr (find (\<lambda>d. stock_id d = i) (docs s)), s, [StoreCall OpFindById]))"

definition populate :: "env \<Rightarrow> string stock \<Rightarrow> user option stock" where
  "populate e d =
     \<lparr>stock_id = stock_id d, stock_title = stock_title d, stock_text = stock_text d,
      stock_owner = lookup_user e (stock_owner d)\<rparr>"

definition toObject :: "'o stock \<Rightarrow> 'o stock" where
  "toObject d = d"

definition create :: "env \<Rightarrow> fields option \<Rightarrow> string stock action" where
  "create e p = (\<lambda>s.
     if store_fails e OpCreate then (Inl StoreError, s, [StoreCall OpCreate])
     else
       (case p of
         None \<Rightarrow> (Inl ValidationError, s, [StoreCall OpCreate])
       | Some f \<Rightarrow>
           (case (str_field f ''title'', str_field f ''text'', str_field f ''owner'') of
             (Some t, Some x, Some ow) \<Rightarrow>
               (let d = \<lparr>stock_id = next_id s, stock_title = t, stock_text = x,
                         stock_owner = ow\<rparr>
                in (Inr d, s\<lparr>docs := docs s @ [d], next_id := Suc (next_id s)\<rparr>,
                    [StoreCall OpCreate]))
           | _ \<Rightarrow> (Inl ValidationError, s, [StoreCall OpCreate]))))"

text \<open>
  A partial update sets the fields the payload carries and leaves the others. The store
  itself would set the owner too, if the payload carried one. The payload is an update
  document as the Mongoose driver reads it: a field is given at the top level, or
  inside the object of the \<^verbatim>\<open>$set\<close> operator, the top level first. The other update
  operators are left out.
\<close>

definition update_value :: "fields \<Rightarrow> string \<Rightarrow> jval option" where
  "update_value f k =
     (case f k of
       Some v \<Rightarrow> Some v
     | None \<Rightarrow> (case f ''$set'' of Some (JObject g) \<Rightarrow> g k | _ \<Rightarrow> None))"

definition set_value :: "fields \<Rightarrow> string \<Rightarrow> string option" where
  "set_value f k = (case update_value f k of Some (JString v) \<Rightarrow> Some v | _ \<Rightarrow> None)"

definition set_fields :: "fields \<Rightarrow> string stock \<Rightarrow> string stock" where
  "set_fields f d =
     \<lparr>stock_id = stock_id d,
      stock_title = (case set_value f ''title'' of Some v \<Rightarrow> v | None \<Rightarrow> stock_title d),
      stock_text = (case set_value f ''text'' of Some v \<Rightarrow> v | None \<Rightarrow> stock_text d),
      stock_owner = (case set_value f ''owner'' of Some v \<Rightarrow> v | None \<Rightarrow> stock_owner d)\<rparr>"

definition updateOne :: "env \<Rightarrow> string stock \<Rightarrow> fields option \<Rightarrow> unit action" where
  "updateOne e d p = (\<lambda>s.
     if store_fails e OpUpdateOne then (Inl StoreError, s, [StoreCall OpUpdateOne])
     else
       (case p of
         None \<Rightarrow> (Inr (), s, [StoreCall OpUpdateOne])
       | Some f \<Rightarrow>
           (Inr (),
            s\<lparr>docs := map (\<lambda>x. if stock_id x = stock_id d then set_fields f x else x) (docs s)\<rparr>,
            [StoreCall OpUpdateOne])))"

definition deleteOne :: "env \<Rightarrow> string stock \<Rightarrow> unit action" where
  "deleteOne e d = (\<lambda>s.
     if store_fails e OpDeleteOne then (Inl StoreError, s, [StoreCall OpDeleteOne])
     else (Inr (), s\<lparr>docs := filter (\<lambda>x. stock_id x \<noteq> stock_id d) (docs s)\<rparr>,
           [StoreCall OpDeleteOne]))"

subsection \<open>Guards and middleware\<close>

text \<open>
  Modelled from the spec: \<^verbatim>\<open>passport.authenticate('bearer')\<close> is the external
  Authenticator. It resolves the bearer credential to a user and sets
  \<^verbatim>\<open>req.user\<close>; a missing or invalid credential is an Unauthorized error.
\<close>

definition requireToken :: "env \<Rightarrow> request \<Rightarrow> request action" where
  "requireToken e req = (\<lambda>s.
     case authorization req of
       None \<Rightarrow> (Inl Unauthorized, s, [RequireToken])
     | Some tok \<Rightarrow>
         (case bearer e tok of
           None \<Rightarrow> (Inl Unauthorized, s, [RequireToken])
         | Some u \<Rightarrow> (Inr (req\<lparr>req_user := Some u\<rparr>), s, [RequireToken])))"

text \<open>
  Modelled from the spec: \<^verbatim>\<open>lib/remove_blank_fields.js\<close> is not part of the sources.
  The Field Sanitizer of the spec produces a new payload where any field whose value is
  the empty string is removed from the inner mapping; non-string and non-empty values
  pass through unchanged.
\<close>

definition remove_blank_fields :: "payload \<Rightarrow> payload" where
  "remove_blank_fields b = (\<lambda>r.
     case b r of
       None \<Rightarrow> None
     | Some f \<Rightarrow> Some (\<lambda>k. if f k = Some (JString []) then None else f k))"

definition removeBlanks :: "request \<Rightarrow> request action" where
  "removeBlanks req = (\<lambda>s.
     (Inr (req\<lparr>body := remove_blank_fields (body req)\<rparr>), s, [RemoveBlanks]))"

text \<open>
  Modelled from the spec: \<^verbatim>\<open>handle404\<close> of \<^verbatim>\<open>lib/custom_errors.js\<close> is not part
  of the sources. The Not-Found Guard of the spec takes the result of a lookup: if
  absent, it fails with NotFound; if present, it passes the record through unchanged.
\<close>

definition handle404 :: "'a option \<Rightarrow> 'a action" where
  "handle404 r = (\<lambda>s.
     case r of
       None \<Rightarrow> (Inl NotFound, s, [Handle404])
     | Some d \<Rightarrow> (Inr d, s, [Handle404]))"

text \<open>
  Modelled from the spec: \<^verbatim>\<open>requireOwnership\<close> of \<^verbatim>\<open>lib/custom_errors.js\<close> is
  not part of the sources. The Ownership Guard of the spec compares the requester's
  identity to the record's owner: if they differ it fails with Forbidden, if they match
  it returns normally. Reading the identity of an absent \<^verbatim>\<open>req.user\<close> is a
  TypeError.
\<close>

definition requireOwnership :: "request \<Rightarrow> string stock \<Rightarrow> unit action" where
  "requireOwnership req d = (\<lambda>s.
     case req_user req of
       None \<Rightarrow> (Inl TypeError, s, [RequireOwnership])
     | Some u \<Rightarrow>
         if user_id u = stock_owner d then (Inr (), s, [RequireOwnership])
         else (Inl Forbidden, s, [RequireOwnership]))"

text \<open>
  \<^verbatim>\<open>req.body.stock.owner = req.user.id\<close> in the create route. Writing a property of an
  absent \<^verbatim>\<open>req.body.stock\<close> throws a TypeError.
\<close>

definition set_owner :: "request \<Rightarrow> request action" where
  "set_owner req = (\<lambda>s.
     case body req ''stock'' of
       None \<Rightarrow> (Inl TypeError, s, [SetOwner])
     | Some f \<Rightarrow>
         (case req_user req of
           None \<Rightarrow> (Inl TypeError, s, [SetOwner])
         | Some u \<Rightarrow>
             (Inr (req\<lparr>body := (body req)(''stock'' \<mapsto> f(''owner'' \<mapsto> JString (user_id u)))\<rparr>),
              s, [SetOwner])))"

text \<open>
  \<^verbatim>\<open>delete req.body.stock.owner\<close> in the update route. Deleting a property of an
  absent \<^verbatim>\<open>req.body.stock\<close> throws a TypeError.
\<close>

definition delete_owner :: "request \<Rightarrow> request action" where
  "delete_owner req = (\<lambda>s.
     case body req ''stock'' of
       None \<Rightarrow> (Inl TypeError, s, [DiscardOwner])
     | Some f \<Rightarrow>
         (Inr (req\<lparr>body := (body req)(''stock'' \<mapsto> f(''owner'' := None))\<rparr>), s, [DiscardOwner]))"

subsection \<open>The routes\<close>

text \<open>INDEX, \<^verbatim>\<open>GET /stocks\<close>. The \<^verbatim>\<open>console.log\<close> of the documents is left out.\<close>

definition get_stocks :: "env \<Rightarrow> request \<Rightarrow> db \<Rightarrow> response \<times> db \<times> step list" where
  "get_stocks e req =
     catch_next
       (then_do (find_all e) (\<lambda>stocks.
        res_json 200 (StocksBody (map (\<lambda>d. toObject (populate e d)) stocks))))"

text \<open>SHOW, \<^verbatim>\<open>GET /stocks/:id\<close>.\<close>

definition get_stock :: "env \<Rightarrow> request \<Rightarrow> db \<Rightarrow> response \<times> db \<times> step list" where
  "get_stock e req =
     catch_next
       (then_do (findById e (params_id req)) (\<lambda>found.
        then_do (handle404 (map_option (populate e) found)) (\<lambda>d.
        res_json 200 (PopulatedStockBody (toObject d)))))"

text \<open>CREATE, \<^verbatim>\<open>POST /stocks\<close>. The \<^verbatim>\<open>console.log\<close> of the body is left out.\<close>

definition post_stocks :: "env \<Rightarrow> request \<Rightarrow> db \<Rightarrow> response \<times> db \<times> step list" where
  "post_stocks e req0 =
     catch_next
       (then_do (requireToken e req0) (\<lambda>req1.
        then_do (set_owner req1) (\<lambda>req.
        then_do (create e (body req ''stock'')) (\<lambda>d.
        res_json 201 (StockBody (toObject d))))))"

text \<open>UPDATE, \<^verbatim>\<open>PATCH /stocks/:id\<close>.\<close>

definition patch_stock :: "env \<Rightarrow> request \<Rightarrow> db \<Rightarrow> response \<times> db \<times> step list" where
  "patch_stock e req0 =
     catch_next
       (then_do (requireToken e req0) (\<lambda>req1.
        then_do (removeBlanks req1) (\<lambda>req2.
        then_do (delete_owner req2) (\<lambda>req.
        then_do (findById e (params_id req)) (\<lambda>found.
        then_do (handle404 found) (\<lambda>d.
        then_do (requireOwnership req d) (\<lambda>_.
        then_do (updateOne e d (body req ''stock'')) (\<lambda>_.
        sendStatus 204))))))))"

text \<open>
  DESTROY, \<^verbatim>\<open>DELETE /stocks/:id\<close>. The callback calls \<^verbatim>\<open>stock.deleteOne()\<close> and
  does not return its promise, so the chain does not wait for its outcome.
\<close>

definition delete_stock :: "env \<Rightarrow> request \<Rightarrow> db \<Rightarrow> response \<times> db \<times> step list" where
  "delete_stock e req0 =
     catch_next
       (then_do (requireToken e req0) (\<lambda>req.
        then_do (findById e (params_id req)) (\<lambda>found.
        then_do (handle404 found) (\<lambda>d.
        then_do (requireOwnership req d) (\<lambda>_.
        then_do (not_returned (deleteOne e d)) (\<lambda>_.
        sendStatus 204))))))"

subsection \<open>Reading a run\<close>

definition response_of :: "response \<times> db \<times> step list \<Rightarrow> response" where
  "response_of r = fst r"

definition store_of :: "response \<times> db \<times> step list \<Rightarrow> db" where
  "store_of r = fst (snd r)"

definition steps_of :: "response \<times> db \<times> step list \<Rightarrow> step list" where
  "steps_of r = snd (snd r)"

text \<open>
  The steps of a successful update in the order of the source: the middleware list of
  \<^verbatim>\<open>router.patch\<close> is \<^verbatim>\<open>requireToken, removeBlanks\<close>, the handler starts with
  \<^verbatim>\<open>delete req.body.stock.owner\<close> and goes on with the promise chain.
\<close>

definition update_steps :: "step list" where
  "update_steps =
     [RequireToken, RemoveBlanks, DiscardOwner, StoreCall OpFindById, Handle404,
      RequireOwnership, StoreCall OpUpdateOne, Respond 204]"

text \<open>
  The same steps in the order the spec gives for Update: require authentication,
  discard client-supplied owner, Field Sanitizer, lookup-by-id, Not-Found Guard,
  Ownership Guard, apply partial update, respond 204.
\<close>

definition update_steps_spec :: "step list" where
  "update_steps_spec =
     [RequireToken, DiscardOwner, RemoveBlanks, StoreCall OpFindById, Handle404,
      RequireOwnership, StoreCall OpUpdateOne, Respond 204]"

subsection \<open>Example data\<close>

definition alice :: user where
  "alice = \<lparr>user_id = ''u1'', user_email = ''alice@example.com''\<rparr>"

definition bob :: user where
  "bob = \<lparr>user_id = ''u2'', user_email = ''bob@example.com''\<rparr>"

definition env_ok :: env where
  "env_ok =
     \<lparr>bearer = (\<lambda>t. if t = ''tok-alice'' then Some alice
                    else if t = ''tok-bob'' then Some bob else None),
      lookup_user = (\<lambda>i. if i = ''u1'' then Some alice
                         else if i = ''u2'' then Some bob else None),
      store_fails = (\<lambda>_. False)\<rparr>"

definition env_delete_fails :: env where
  "env_delete_fails = env_ok\<lparr>store_fails := (\<lambda>op. op = OpDeleteOne)\<rparr>"

definition env_update_fails :: env where
  "env_update_fails = env_ok\<lparr>store_fails := (\<lambda>op. op = OpUpdateOne)\<rparr>"

definition aapl :: "string stock" where
  "aapl = \<lparr>stock_id = 0, stock_title = ''AAPL'', stock_text = ''buy'', stock_owner = ''u1''\<rparr>"

definition db_empty :: db where
  "db_empty = \<lparr>docs = [], next_id = 0\<rparr>"

definition db1 :: db where
  "db1 = \<lparr>docs = [aapl], next_id = 1\<rparr>"

definition mk_request :: "string option \<Rightarrow> nat \<Rightarrow> payload \<Rightarrow> request" where
  "mk_request tok i b = \<lparr>authorization = tok, req_user = None, params_id = i, body = b\<rparr>"

text \<open>\<^verbatim>\<open>{ stock: { title: '', text: 'sell', owner: 'u2' } }\<close>\<close>

definition sell_fields :: fields where
  "sell_fields = [''title'' \<mapsto> JString [], ''text'' \<mapsto> JString ''sell'', ''owner'' \<mapsto> JString ''u2'']"

definition sell_body :: payload where
  "sell_body = [''stock'' \<mapsto> sell_fields]"

text \<open>\<^verbatim>\<open>{ stock: { title: 'AAPL', text: 'buy' } }\<close>\<close>

definition buy_fields :: fields where
  "buy_fields = [''title'' \<mapsto> JString ''AAPL'', ''text'' \<mapsto> JString ''buy'']"

definition buy_body :: payload where
  "buy_body = [''stock'' \<mapsto> buy_fields]"

text \<open>\<^verbatim>\<open>{ stock: { $set: { owner: 'u2' } } }\<close>\<close>

definition transfer_fields :: fields where
  "transfer_fields = [''$set'' \<mapsto> JObject [''owner'' \<mapsto> JString ''u2'']]"

definition transfer_body :: payload where
  "transfer_body = [''stock'' \<mapsto> transfer_fields]"

text \<open>Requests on the example store: by the owner, by another user, for an absent id.\<close>

definition alice_patch_transfer :: request where
  "alice_patch_transfer = mk_request (Some ''tok-alice'') 0 transfer_body"

definition bob_patch_empty :: request where
  "bob_patch_empty = mk_request (Some ''tok-bob'') 0 Map.empty"

definition alice_patch :: request where
  "alice_patch = mk_request (Some ''tok-alice'') 0 sell_body"

definition bob_patch :: request where
  "bob_patch = mk_request (Some ''tok-bob'') 0 sell_body"

definition alice_delete :: request where
  "alice_delete = mk_request (Some ''tok-alice'') 0 Map.empty"

definition bob_delete :: request where
  "bob_delete = mk_request (Some ''tok-bob'') 0 Map.empty"

definition bob_post :: request where
  "bob_post = mk_request (Some ''tok-bob'') 0 buy_body"

definition alice_patch_missing :: request where
  "alice_patch_missing = mk_request (Some ''tok-alice'') 7 sell_body"

definition alice_delete_missing :: request where
  "alice_delete_missing = mk_request (Some ''tok-alice'') 7 Map.empty"

definition anonymous_get :: request where
  "anonymous_get = mk_request None 7 Map.empty"

section \<open>Properties\<close>

lemmas model_defs =
  then_do_def catch_next_def not_returned_def res_json_def sendStatus_def
  find_all_def findById_def create_def updateOne_def deleteOne_def
  requireToken_def removeBlanks_def handle404_def requireOwnership_def
  set_owner_def delete_owner_def response_of_def store_of_def steps_of_def

lemmas example_defs =
  alice_def bob_def env_ok_def env_delete_fails_def env_update_fails_def aapl_def
  db_empty_def db1_def mk_request_def sell_fields_def sell_body_def buy_fields_def
  buy_body_def alice_patch_def bob_patch_def alice_delete_def bob_delete_def
  bob_post_def alice_patch_missing_def alice_delete_missing_def anonymous_get_def
  transfer_fields_def transfer_body_def alice_patch_transfer_def bob_patch_empty_def

subsection \<open>Chaining\<close>

lemma then_do_failure:
  assumes "m s = (Inl x, s', t)"
  shows "then_do m f s = (Inl x, s', t)"
  using assms by (simp add: then_do_def)

lemma catch_next_failure:
  assumes "m s = (Inl x, s', t)"
  shows "catch_next m s = (Failed x, s', t)"
  using assms by (simp add: catch_next_def)

lemma not_returned_never_fails: "fst (not_returned m s) = Inr ()"
  by (simp add: not_returned_def split: prod.splits)

subsection \<open>Runs on the example data\<close>

lemma alice_patch_run:
  "patch_stock env_ok alice_patch db1 =
     (SendStatus 204,
      \<lparr>docs = [\<lparr>stock_id = 0, stock_title = ''AAPL'', stock_text = ''sell'',
                 stock_owner = ''u1''\<rparr>], next_id = 1\<rparr>,
      [RequireToken, RemoveBlanks, DiscardOwner, StoreCall OpFindById, Handle404,
       RequireOwnership, StoreCall OpUpdateOne, Respond 204])"
  unfolding patch_stock_def model_defs example_defs
  by (simp add: remove_blank_fields_def set_fields_def set_value_def update_value_def)

lemma bob_patch_run:
  "patch_stock env_ok bob_patch db1 =
     (Failed Forbidden, db1,
      [RequireToken, RemoveBlanks, DiscardOwner, StoreCall OpFindById, Handle404,
       RequireOwnership])"
  unfolding patch_stock_def model_defs example_defs
  by (simp add: remove_blank_fields_def)

lemma alice_delete_run:
  "delete_stock env_ok alice_delete db1 =
     (SendStatus 204, \<lparr>docs = [], next_id = 1\<rparr>,
      [RequireToken, StoreCall OpFindById, Handle404, RequireOwnership,
       StoreCall OpDeleteOne, Respond 204])"
  unfolding delete_stock_def model_defs example_defs
  by simp

lemma bob_delete_run:
  "delete_stock env_ok bob_delete db1 =
     (Failed Forbidden, db1,
      [RequireToken, StoreCall OpFindById, Handle404, RequireOwnership])"
  unfolding delete_stock_def model_defs example_defs
  by simp

lemma alice_patch_missing_run:
  "patch_stock env_ok alice_patch_missing db1 =
     (Failed NotFound, db1,
      [RequireToken, RemoveBlanks, DiscardOwner, StoreCall OpFindById, Handle404])"
  unfolding patch_stock_def model_defs example_defs
  by (simp add: remove_blank_fields_def)

lemma alice_delete_missing_run:
  "delete_stock env_ok alice_delete_missing db1 =
     (Failed NotFound, db1, [RequireToken, StoreCall OpFindById, Handle404])"
  unfolding delete_stock_def model_defs example_defs
  by simp

text \<open>An update whose body has no \<^verbatim>\<open>stock\<close> object stops at the \<^verbatim>\<open>delete\<close>.\<close>

lemma patch_without_stock_run:
  "patch_stock env_ok bob_patch_empty db1 =
     (Failed TypeError, db1, [RequireToken, RemoveBlanks, DiscardOwner])"
  unfolding patch_stock_def model_defs example_defs
  by (simp add: remove_blank_fields_def)

text \<open>The update route returns the promise of \<^verbatim>\<open>updateOne\<close>: its failure is forwarded.\<close>

lemma patch_store_failure_run:
  "patch_stock env_update_fails alice_patch db1 =
     (Failed StoreError, db1,
      [RequireToken, RemoveBlanks, DiscardOwner, StoreCall OpFindById, Handle404,
       RequireOwnership, StoreCall OpUpdateOne])"
  unfolding patch_stock_def model_defs example_defs
  by (simp add: remove_blank_fields_def)

subsection \<open>The owner of a record\<close>

text \<open>The store alone does not protect the owner: a payload with an owner sets it.\<close>

lemma set_fields_sets_owner:
  "stock_owner (set_fields [''owner'' \<mapsto> JString ''u2''] aapl) = ''u2''"
  by (simp add: set_fields_def set_value_def update_value_def)

text \<open>
  The route discards the \<^verbatim>\<open>owner\<close> key of the stock object: it does exactly the same,
  response, store and steps, whether the stock object carries that key, with any value,
  or not.
\<close>

lemma patch_ignores_owner_field:
  "patch_stock e (req\<lparr>body := (body req)(''stock'' \<mapsto> f(''owner'' \<mapsto> v))\<rparr>) s =
   patch_stock e (req\<lparr>body := (body req)(''stock'' \<mapsto> f(''owner'' := None))\<rparr>) s"
proof -
  have "(\<lambda>k. if (f(''owner'' \<mapsto> v)) k = Some (JString []) then None
             else (f(''owner'' \<mapsto> v)) k)(''owner'' := None) =
        (\<lambda>k. if (f(''owner'' := None)) k = Some (JString []) then None
             else (f(''owner'' := None)) k)(''owner'' := None)"
    by (rule ext) simp
  then show ?thesis
    unfolding patch_stock_def model_defs remove_blank_fields_def
    by (auto split: option.splits if_splits)
qed

text \<open>
  With a stock object that has no \<^verbatim>\<open>$set\<close> key, no update request alters an owner:
  the store holds the same records with the same owners after the route as before it.
\<close>

lemma patch_keeps_owners_without_set:
  assumes "\<And>f. body req ''stock'' = Some f \<Longrightarrow> f ''$set'' = None"
  shows "map (\<lambda>d. (stock_id d, stock_owner d)) (docs (store_of (patch_stock e req s))) =
    map (\<lambda>d. (stock_id d, stock_owner d)) (docs s)"
proof (cases "body req ''stock''")
  case None
  then show ?thesis
    unfolding patch_stock_def model_defs remove_blank_fields_def
    by (auto split: option.splits if_splits)
next
  case (Some f)
  then have "f ''$set'' = None" by (rule assms)
  with Some show ?thesis
    unfolding patch_stock_def model_defs remove_blank_fields_def
    by (auto split: option.splits if_splits
        simp: set_fields_def set_value_def update_value_def)
qed

text \<open>
  C1. The claim: no update request alters the owner of a record; an owner in the
  payload is discarded before the payload reaches the store. The route discards the
  top-level \<^verbatim>\<open>owner\<close> key only. Here the owner of record 0, user u1, sends
  \<^verbatim>\<open>{ stock: { $set: { owner: 'u2' } } }\<close>: nothing is discarded, the payload reaches
  \<^verbatim>\<open>updateOne\<close> with its owner, the route answers 204 and the record is owned by u2.
\<close>

theorem update_with_set_operator_alters_owner:
  "response_of (patch_stock env_ok alice_patch_transfer db1) = SendStatus 204 \<and>
   steps_of (patch_stock env_ok alice_patch_transfer db1) = update_steps \<and>
   map (\<lambda>d. (stock_id d, stock_owner d)) (docs db1) = [(0, ''u1'')] \<and>
   map (\<lambda>d. (stock_id d, stock_owner d))
     (docs (store_of (patch_stock env_ok alice_patch_transfer db1))) = [(0, ''u2'')]"
  unfolding patch_stock_def model_defs example_defs update_steps_def
  by (simp add: remove_blank_fields_def set_fields_def set_value_def update_value_def)

subsection \<open>Ownership\<close>

text \<open>
  C2, as the spec words it: every update or delete request by an authenticated
  requester who is not the owner of the target record fails with Forbidden. Bob, who
  does not own record 0, sends an update whose body \<^verbatim>\<open>{}\<close> has no stock object:
  \<^verbatim>\<open>delete req.body.stock.owner\<close> throws before the lookup and the Ownership Guard,
  and the error handed on is a TypeError, not Forbidden.
\<close>

theorem non_owner_without_stock_not_forbidden:
  "authorization bob_patch_empty = Some ''tok-bob'' \<and>
   bearer env_ok ''tok-bob'' = Some bob \<and>
   \<not> store_fails env_ok OpFindById \<and>
   find (\<lambda>d. stock_id d = params_id bob_patch_empty) (docs db1) = Some aapl \<and>
   user_id bob \<noteq> stock_owner aapl \<and>
   response_of (patch_stock env_ok bob_patch_empty db1) = Failed TypeError \<and>
   response_of (patch_stock env_ok bob_patch_empty db1) \<noteq> Failed Forbidden"
proof -
  have a: "authorization bob_patch_empty = Some ''tok-bob''"
    by (simp add: bob_patch_empty_def mk_request_def)
  have b: "bearer env_ok ''tok-bob'' = Some bob"
    by (simp add: env_ok_def)
  have c: "\<not> store_fails env_ok OpFindById"
    by (simp add: env_ok_def)
  have d: "find (\<lambda>d. stock_id d = params_id bob_patch_empty) (docs db1) = Some aapl"
    by (simp add: bob_patch_empty_def mk_request_def db1_def aapl_def)
  have e: "user_id bob \<noteq> stock_owner aapl"
    by (simp add: bob_def aapl_def)
  have f: "response_of (patch_stock env_ok bob_patch_empty db1) = Failed TypeError"
    by (simp add: patch_without_stock_run response_of_def)
  from a b c d e f show ?thesis by simp
qed

text \<open>
  C2, amended. A delete request, and an update request whose body has a stock object,
  by an authenticated requester who is not the owner of the target record fails with
  Forbidden. Every update or delete request by such a requester leaves the store as it
  was, and the store is not asked to update or delete. The lookup is taken to answer.
\<close>

theorem non_owner_forbidden_record_unchanged:
  assumes "authorization req = Some tok" and "bearer e tok = Some u"
    and "\<not> store_fails e OpFindById"
    and "find (\<lambda>d. stock_id d = params_id req) (docs s) = Some d"
    and "user_id u \<noteq> stock_owner d"
  shows "response_of (delete_stock e req s) = Failed Forbidden \<and>
     store_of (delete_stock e req s) = s \<and>
     StoreCall OpDeleteOne \<notin> set (steps_of (delete_stock e req s)) \<and>
     (body req ''stock'' \<noteq> None \<longrightarrow>
        response_of (patch_stock e req s) = Failed Forbidden) \<and>
     store_of (patch_stock e req s) = s \<and>
     StoreCall OpUpdateOne \<notin> set (steps_of (patch_stock e req s))"
  using assms
  unfolding delete_stock_def patch_stock_def model_defs remove_blank_fields_def
  by (auto split: option.splits if_splits)

text \<open>Bob, who does not own the record of Alice, tries to update and to delete it.\<close>

theorem non_owner_forbidden_record_unchanged_witness:
  "authorization bob_patch = Some ''tok-bob'' \<and> bearer env_ok ''tok-bob'' = Some bob \<and>
   \<not> store_fails env_ok OpFindById \<and>
   find (\<lambda>d. stock_id d = params_id bob_patch) (docs db1) = Some aapl \<and>
   user_id bob \<noteq> stock_owner aapl \<and>
   body bob_patch ''stock'' \<noteq> None \<and>
   response_of (delete_stock env_ok bob_patch db1) = Failed Forbidden \<and>
   store_of (delete_stock env_ok bob_patch db1) = db1 \<and>
   response_of (patch_stock env_ok bob_patch db1) = Failed Forbidden \<and>
   store_of (patch_stock env_ok bob_patch db1) = db1"
proof -
  have a: "authorization bob_patch = Some ''tok-bob''"
    by (simp add: bob_patch_def mk_request_def)
  have b: "bearer env_ok ''tok-bob'' = Some bob"
    by (simp add: env_ok_def)
  have c: "\<not> store_fails env_ok OpFindById"
    by (simp add: env_ok_def)
  have d: "find (\<lambda>d. stock_id d = params_id bob_patch) (docs db1) = Some aapl"
    by (simp add: bob_patch_def mk_request_def db1_def aapl_def)
  have e: "user_id bob \<noteq> stock_owner aapl"
    by (simp add: bob_def aapl_def)
  have f: "body bob_patch ''stock'' \<noteq> None"
    by (simp add: bob_patch_def mk_request_def sell_body_def)
  from non_owner_forbidden_record_unchanged [OF a b c d e] a b c d e f
  show ?thesis by simp
qed

text \<open>
  The owner is let through: with her own token the delete route answers 204, and it
  does so whether or not the store accepts the removal.
\<close>

lemma delete_by_owner_always_204:
  assumes "authorization req = Some tok" and "bearer e tok = Some u"
    and "\<not> store_fails e OpFindById"
    and "find (\<lambda>d. stock_id d = params_id req) (docs s) = Some d"
    and "user_id u = stock_owner d"
  shows "response_of (delete_stock e req s) = SendStatus 204"
  using assms unfolding delete_stock_def model_defs
  by (auto split: option.splits if_splits)

subsection \<open>Failures\<close>

text \<open>
  C3. The claim: every guard failure and every store failure is forwarded to the error
  handler, and a store failure during the removal of the delete route is not swallowed
  while a success status is returned. Here the owner deletes her record and the store
  rejects \<^verbatim>\<open>deleteOne\<close>: the route answers 204 and the record is still in the store.
  The promise of \<^verbatim>\<open>stock.deleteOne()\<close> is not returned from the callback, so its
  rejection never reaches \<^verbatim>\<open>.catch(next)\<close>; the update route, which returns
  \<^verbatim>\<open>stock.updateOne(...)\<close>, forwards the same failure (\<open>patch_store_failure_run\<close>).
\<close>

theorem delete_store_failure_answers_204:
  "store_fails env_delete_fails OpDeleteOne \<and>
   response_of (delete_stock env_delete_fails alice_delete db1) = SendStatus 204 \<and>
   store_of (delete_stock env_delete_fails alice_delete db1) = db1 \<and>
   steps_of (delete_stock env_delete_fails alice_delete db1) =
     [RequireToken, StoreCall OpFindById, Handle404, RequireOwnership,
      StoreCall OpDeleteOne, Respond 204]"
  unfolding delete_stock_def model_defs example_defs
  by simp

subsection \<open>Absent records\<close>

lemma patch_reaches_lookup:
  assumes "authorization req = Some tok" and "bearer e tok = Some u"
    and "body req ''stock'' \<noteq> None"
  shows "StoreCall OpFindById \<in> set (steps_of (patch_stock e req s))"
  using assms unfolding patch_stock_def model_defs remove_blank_fields_def
  by (auto split: option.splits if_splits)

lemma delete_reaches_lookup:
  assumes "authorization req = Some tok" and "bearer e tok = Some u"
  shows "StoreCall OpFindById \<in> set (steps_of (delete_stock e req s))"
  using assms unfolding delete_stock_def model_defs
  by (auto split: option.splits if_splits)

text \<open>
  C4. A lookup by an identifier for which the store has no record fails with NotFound,
  whichever route performed it: show always performs it; update and delete perform it
  once the request has passed the steps before it (\<open>patch_reaches_lookup\<close>,
  \<open>delete_reaches_lookup\<close>). The lookup is taken to answer.
\<close>

theorem missing_record_not_found:
  assumes "find (\<lambda>d. stock_id d = params_id req) (docs s) = None"
    and "\<not> store_fails e OpFindById"
  shows "response_of (get_stock e req s) = Failed NotFound \<and>
    (StoreCall OpFindById \<in> set (steps_of (patch_stock e req s)) \<longrightarrow>
       response_of (patch_stock e req s) = Failed NotFound) \<and>
    (StoreCall OpFindById \<in> set (steps_of (delete_stock e req s)) \<longrightarrow>
       response_of (delete_stock e req s) = Failed NotFound)"
  using assms unfolding get_stock_def delete_stock_def patch_stock_def model_defs
  by (auto split: option.splits if_splits)

text \<open>No record has the id 7: show, update and delete of it all fail with NotFound.\<close>

theorem missing_record_not_found_witness:
  "find (\<lambda>d. stock_id d = params_id alice_patch_missing) (docs db1) = None \<and>
   \<not> store_fails env_ok OpFindById \<and>
   StoreCall OpFindById \<in> set (steps_of (patch_stock env_ok alice_patch_missing db1)) \<and>
   StoreCall OpFindById \<in> set (steps_of (delete_stock env_ok alice_patch_missing db1)) \<and>
   response_of (get_stock env_ok alice_patch_missing db1) = Failed NotFound \<and>
   response_of (patch_stock env_ok alice_patch_missing db1) = Failed NotFound \<and>
   response_of (delete_stock env_ok alice_patch_missing db1) = Failed NotFound"
proof -
  have a: "find (\<lambda>d. stock_id d = params_id alice_patch_missing) (docs db1) = None"
    by (simp add: alice_patch_missing_def mk_request_def db1_def aapl_def)
  have b: "\<not> store_fails env_ok OpFindById"
    by (simp add: env_ok_def)
  have tok: "authorization alice_patch_missing = Some ''tok-alice''"
    by (simp add: alice_patch_missing_def mk_request_def)
  have usr: "bearer env_ok ''tok-alice'' = Some alice"
    by (simp add: env_ok_def)
  have stk: "body alice_patch_missing ''stock'' \<noteq> None"
    by (simp add: alice_patch_missing_def mk_request_def sell_body_def)
  have c: "StoreCall OpFindById \<in> set (steps_of (patch_stock env_ok alice_patch_missing db1))"
    by (rule patch_reaches_lookup [OF tok usr stk])
  have d: "StoreCall OpFindById \<in> set (steps_of (delete_stock env_ok alice_patch_missing db1))"
    by (rule delete_reaches_lookup [OF tok usr])
  from missing_record_not_found [OF a b] a b c d
  show ?thesis by simp
qed

subsection \<open>The order of the update route\<close>

text \<open>
  C5, as the spec words it: every update request runs its steps in the order of
  \<open>update_steps_spec\<close>, the owner field discarded before the Field Sanitizer. The
  update of her record by the owner succeeds with 204 and its steps are not in that order:
  the sanitizer, a middleware of the route, runs before the handler that discards the
  owner field.
\<close>

theorem update_order_spec_counterexample:
  "response_of (patch_stock env_ok alice_patch db1) = SendStatus 204 \<and>
   steps_of (patch_stock env_ok alice_patch db1) =
     [RequireToken, RemoveBlanks, DiscardOwner, StoreCall OpFindById, Handle404,
      RequireOwnership, StoreCall OpUpdateOne, Respond 204] \<and>
   \<not> prefix (steps_of (patch_stock env_ok alice_patch db1)) update_steps_spec"
  by (simp add: alice_patch_run response_of_def steps_of_def update_steps_spec_def)

text \<open>
  C5, amended. Every update request runs its steps in the order: require
  authentication, Field Sanitizer, discard the client-supplied owner field,
  lookup-by-id, Not-Found Guard, Ownership Guard, partial update, 204 response. A
  request that fails stops at the failing step, so its steps are an initial part of
  that list; a request answered with 204 has run all of them.
\<close>

theorem update_steps_in_source_order:
  "prefix (steps_of (patch_stock e req s)) update_steps \<and>
   (response_of (patch_stock e req s) = SendStatus 204 \<longrightarrow>
      steps_of (patch_stock e req s) = update_steps)"
  unfolding patch_stock_def model_defs update_steps_def
  by (auto split: option.splits if_splits)

theorem update_steps_in_source_order_witness:
  "response_of (patch_stock env_ok alice_patch db1) = SendStatus 204 \<and>
   steps_of (patch_stock env_ok alice_patch db1) = update_steps \<and>
   steps_of (patch_stock env_ok bob_patch db1) = take 6 update_steps \<and>
   prefix (steps_of (patch_stock env_ok bob_patch db1)) update_steps"
proof -
  have a: "response_of (patch_stock env_ok alice_patch db1) = SendStatus 204"
    by (simp add: alice_patch_run response_of_def)
  have b: "steps_of (patch_stock env_ok bob_patch db1) = take 6 update_steps"
    by (simp add: bob_patch_run steps_of_def update_steps_def)
  from update_steps_in_source_order [of env_ok alice_patch db1]
    update_steps_in_source_order [of env_ok bob_patch db1] a b
  show ?thesis by simp
qed

subsection \<open>Create\<close>

text \<open>
  C6. A create request by an authenticated requester with a well-formed payload (a
  \<^verbatim>\<open>stock\<close> object with a title and a text, both strings) that the store accepts is
  answered with 201 and the created record; the owner of that record is the requester's
  id, whatever owner the payload named, and the record is the one added to the store.
\<close>

theorem create_sets_owner:
  assumes "authorization req = Some tok" and "bearer e tok = Some u"
    and "body req ''stock'' = Some f"
    and "f ''title'' = Some (JString t)" and "f ''text'' = Some (JString x)"
    and "\<not> store_fails e OpCreate"
  shows "\<exists>d. response_of (post_stocks e req s) = Json 201 (StockBody d) \<and>
     stock_owner d = user_id u \<and> stock_title d = t \<and> stock_text d = x \<and>
     docs (store_of (post_stocks e req s)) = docs s @ [d]"
  using assms unfolding post_stocks_def model_defs
  by (auto split: option.splits if_splits simp: str_field_def toObject_def Let_def)

text \<open>
  The scenario of the spec: \<^verbatim>\<open>{stock:{title:"AAPL",text:"buy"}}\<close> posted with the
  token of Bob.
\<close>

theorem create_sets_owner_witness:
  "authorization bob_post = Some ''tok-bob'' \<and> bearer env_ok ''tok-bob'' = Some bob \<and>
   body bob_post ''stock'' = Some buy_fields \<and>
   buy_fields ''title'' = Some (JString ''AAPL'') \<and>
   buy_fields ''text'' = Some (JString ''buy'') \<and>
   \<not> store_fails env_ok OpCreate \<and>
   (\<exists>d. response_of (post_stocks env_ok bob_post db1) = Json 201 (StockBody d) \<and>
     stock_owner d = ''u2'' \<and> stock_title d = ''AAPL'' \<and> stock_text d = ''buy'' \<and>
     docs (store_of (post_stocks env_ok bob_post db1)) = docs db1 @ [d])"
proof -
  have a: "authorization bob_post = Some ''tok-bob''"
    by (simp add: bob_post_def mk_request_def)
  have b: "bearer env_ok ''tok-bob'' = Some bob"
    by (simp add: env_ok_def)
  have c: "body bob_post ''stock'' = Some buy_fields"
    by (simp add: bob_post_def mk_request_def buy_body_def)
  have d: "buy_fields ''title'' = Some (JString ''AAPL'')"
    by (simp add: buy_fields_def)
  have e: "buy_fields ''text'' = Some (JString ''buy'')"
    by (simp add: buy_fields_def)
  have f: "\<not> store_fails env_ok OpCreate"
    by (simp add: env_ok_def)
  have g: "user_id bob = ''u2''"
    by (simp add: bob_def)
  from create_sets_owner [OF a b c d e f, of db1] a b c d e f g
  show ?thesis by simp
qed

subsection \<open>The Field Sanitizer\<close>

text \<open>
  C7. The Field Sanitizer maps a nested payload to a new one with the same resource
  names, where an inner field whose value is the empty string is removed and every
  other field (a value that is not a string, a string that is not empty, an absent
  field) is as it was.
\<close>

theorem remove_blank_fields_spec:
  "(b r = None \<longrightarrow> remove_blank_fields b r = None) \<and>
   (\<forall>f. b r = Some f \<longrightarrow>
      (\<exists>g. remove_blank_fields b r = Some g \<and>
           (\<forall>k. (f k = Some (JString []) \<longrightarrow> g k = None) \<and>
                (f k \<noteq> Some (JString []) \<longrightarrow> g k = f k))))"
  by (simp add: remove_blank_fields_def)

text \<open>
  The example of the source's comment, \<^verbatim>\<open>{ stock: { title: '', text: ... } }\<close>: the
  title goes, the text stays.
\<close>

theorem remove_blank_fields_spec_witness:
  "sell_body ''stock'' = Some sell_fields \<and>
   sell_fields ''title'' = Some (JString []) \<and>
   sell_fields ''text'' \<noteq> Some (JString []) \<and>
   sell_body ''other'' = None \<and>
   (\<exists>g. remove_blank_fields sell_body ''stock'' = Some g \<and>
        g ''title'' = None \<and> g ''text'' = Some (JString ''sell'')) \<and>
   remove_blank_fields sell_body ''other'' = None"
proof -
  have a: "sell_body ''stock'' = Some sell_fields"
    by (simp add: sell_body_def)
  have b: "sell_fields ''title'' = Some (JString [])"
    by (simp add: sell_fields_def)
  have c: "sell_fields ''text'' = Some (JString ''sell'')"
    by (simp add: sell_fields_def)
  have d: "sell_body ''other'' = None"
    by (simp add: sell_body_def)
  from remove_blank_fields_spec [of sell_body "''stock''"]
    remove_blank_fields_spec [of sell_body "''other''"] a b c d
  show ?thesis by auto
qed

text \<open>
  C8. The Field Sanitizer is idempotent: sanitizing a sanitized payload gives the
  same payload as sanitizing once.
\<close>

theorem remove_blank_fields_idempotent:
  "remove_blank_fields (remove_blank_fields b) = remove_blank_fields b"
  by (rule ext) (auto simp: remove_blank_fields_def split: option.splits)

text \<open>The middleware run twice leaves the request of the middleware run once.\<close>

lemma removeBlanks_twice:
  "then_do (removeBlanks req) removeBlanks s =
     (case removeBlanks req s of (r, s', t) \<Rightarrow> (r, s', t @ [RemoveBlanks]))"
proof -
  have "remove_blank_fields (remove_blank_fields (body req)) = remove_blank_fields (body req)"
    by (rule ext) (auto simp: remove_blank_fields_def split: option.splits)
  then show ?thesis
    by (simp add: then_do_def removeBlanks_def)
qed

subsection \<open>The order of the guards\<close>

lemma patch_ownership_steps:
  assumes "RequireOwnership \<in> set (steps_of (patch_stock e req s))"
  shows "find (\<lambda>d. stock_id d = params_id req) (docs s) \<noteq> None \<and>
    (\<exists>post. steps_of (patch_stock e req s) =
       [RequireToken, RemoveBlanks, DiscardOwner, StoreCall OpFindById] @
       Handle404 # RequireOwnership # post)"
  using assms unfolding patch_stock_def model_defs
  by (auto split: option.splits if_splits)

lemma delete_ownership_steps:
  assumes "RequireOwnership \<in> set (steps_of (delete_stock e req s))"
  shows "find (\<lambda>d. stock_id d = params_id req) (docs s) \<noteq> None \<and>
    (\<exists>post. steps_of (delete_stock e req s) =
       [RequireToken, StoreCall OpFindById] @ Handle404 # RequireOwnership # post)"
  using assms unfolding delete_stock_def model_defs
  by (auto split: option.splits if_splits)

lemma guard_order:
  assumes "t = pre @ Handle404 # RequireOwnership # post"
    and "RequireOwnership \<notin> set pre"
  shows "\<exists>pre post. t = pre @ Handle404 # post \<and>
     RequireOwnership \<notin> set pre \<and> RequireOwnership \<in> set post"
proof (intro exI conjI)
  show "t = pre @ Handle404 # (RequireOwnership # post)" by (rule assms(1))
  show "RequireOwnership \<notin> set pre" by (rule assms(2))
  show "RequireOwnership \<in> set (RequireOwnership # post)" by simp
qed

text \<open>
  C9. On the update route and on the delete route the Ownership Guard runs strictly
  after the Not-Found Guard: whenever the Ownership Guard is among the steps of a
  request, the Not-Found Guard is a step before it and no Ownership Guard comes before
  that one; and the record looked up is present, so the ownership comparison is never
  made on an absent record.
\<close>

theorem ownership_guard_after_not_found_guard:
  "(RequireOwnership \<in> set (steps_of (patch_stock e req s)) \<longrightarrow>
      find (\<lambda>d. stock_id d = params_id req) (docs s) \<noteq> None \<and>
      (\<exists>pre post. steps_of (patch_stock e req s) = pre @ Handle404 # post \<and>
         RequireOwnership \<notin> set pre \<and> RequireOwnership \<in> set post)) \<and>
   (RequireOwnership \<in> set (steps_of (delete_stock e req s)) \<longrightarrow>
      find (\<lambda>d. stock_id d = params_id req) (docs s) \<noteq> None \<and>
      (\<exists>pre post. steps_of (delete_stock e req s) = pre @ Handle404 # post \<and>
         RequireOwnership \<notin> set pre \<and> RequireOwnership \<in> set post))"
proof (intro conjI impI)
  assume a: "RequireOwnership \<in> set (steps_of (patch_stock e req s))"
  from patch_ownership_steps [OF a]
  show "find (\<lambda>d. stock_id d = params_id req) (docs s) \<noteq> None" by simp
  from patch_ownership_steps [OF a] obtain post where
    "steps_of (patch_stock e req s) =
       [RequireToken, RemoveBlanks, DiscardOwner, StoreCall OpFindById] @
       Handle404 # RequireOwnership # post" by blast
  then show "\<exists>pre post. steps_of (patch_stock e req s) = pre @ Handle404 # post \<and>
         RequireOwnership \<notin> set pre \<and> RequireOwnership \<in> set post"
    by (rule guard_order) simp
next
  assume a: "RequireOwnership \<in> set (steps_of (delete_stock e req s))"
  from delete_ownership_steps [OF a]
  show "find (\<lambda>d. stock_id d = params_id req) (docs s) \<noteq> None" by simp
  from delete_ownership_steps [OF a] obtain post where
    "steps_of (delete_stock e req s) =
       [RequireToken, StoreCall OpFindById] @ Handle404 # RequireOwnership # post" by blast
  then show "\<exists>pre post. steps_of (delete_stock e req s) = pre @ Handle404 # post \<and>
         RequireOwnership \<notin> set pre \<and> RequireOwnership \<in> set post"
    by (rule guard_order) simp
qed

text \<open>
  An update by a non-owner and a delete by the owner reach the Ownership Guard, after
  the Not-Found Guard; an update and a delete of the absent id 7 never reach it.
\<close>

theorem ownership_guard_after_not_found_guard_witness:
  "RequireOwnership \<in> set (steps_of (patch_stock env_ok bob_patch db1)) \<and>
   find (\<lambda>d. stock_id d = params_id bob_patch) (docs db1) \<noteq> None \<and>
   (\<exists>pre post. steps_of (patch_stock env_ok bob_patch db1) = pre @ Handle404 # post \<and>
         RequireOwnership \<notin> set pre \<and> RequireOwnership \<in> set post) \<and>
   RequireOwnership \<in> set (steps_of (delete_stock env_ok alice_delete db1)) \<and>
   find (\<lambda>d. stock_id d = params_id alice_delete) (docs db1) \<noteq> None \<and>
   (\<exists>pre post. steps_of (delete_stock env_ok alice_delete db1) = pre @ Handle404 # post \<and>
         RequireOwnership \<notin> set pre \<and> RequireOwnership \<in> set post) \<and>
   RequireOwnership \<notin> set (steps_of (patch_stock env_ok alice_patch_missing db1)) \<and>
   RequireOwnership \<notin> set (steps_of (delete_stock env_ok alice_delete_missing db1))"
proof -
  have a: "RequireOwnership \<in> set (steps_of (patch_stock env_ok bob_patch db1))"
    by (simp add: bob_patch_run steps_of_def)
  have b: "RequireOwnership \<in> set (steps_of (delete_stock env_ok alice_delete db1))"
    by (simp add: alice_delete_run steps_of_def)
  have c: "RequireOwnership \<notin> set (steps_of (patch_stock env_ok alice_patch_missing db1))"
    by (simp add: alice_patch_missing_run steps_of_def)
  have d: "RequireOwnership \<notin> set (steps_of (delete_stock env_ok alice_delete_missing db1))"
    by (simp add: alice_delete_missing_run steps_of_def)
  from a b c d ownership_guard_after_not_found_guard [of env_ok bob_patch db1]
    ownership_guard_after_not_found_guard [of env_ok alice_delete db1]
  show ?thesis by blast
qed

subsection \<open>Index\<close>

text \<open>
  C10. The index route never fails with NotFound: the Not-Found Guard is not among its
  steps, and on a store without records, when the store answers, the response is 200
  with an empty collection.
\<close>

theorem index_never_not_found:
  "response_of (get_stocks e req s) \<noteq> Failed NotFound \<and>
   Handle404 \<notin> set (steps_of (get_stocks e req s)) \<and>
   (docs s = [] \<and> \<not> store_fails e OpFind \<longrightarrow>
      response_of (get_stocks e req s) = Json 200 (StocksBody []))"
  unfolding get_stocks_def model_defs
  by (auto split: option.splits if_splits)

theorem index_never_not_found_witness:
  "docs db_empty = [] \<and> \<not> store_fails env_ok OpFind \<and>
   response_of (get_stocks env_ok anonymous_get db_empty) = Json 200 (StocksBody []) \<and>
   Handle404 \<notin> set (steps_of (get_stocks env_ok anonymous_get db_empty))"
proof -
  have a: "docs db_empty = []"
    by (simp add: db_empty_def)
  have b: "\<not> store_fails env_ok OpFind"
    by (simp add: env_ok_def)
  from index_never_not_found [of env_ok anonymous_get db_empty] a b
  show ?thesis by simp
qed

end
